theory Spec2Isabelle
  imports Complex_Main
begin

section \<open>JSON values and readings\<close>

text \<open>
  A reading is the JSON object that \<^verbatim>\<open>express.json()\<close> parsed from the request body: a
  finite map from property names to JSON values. JSON numbers are modelled as reals; the
  code never computes with them, it only tests them for truthiness.
\<close>

datatype jvalue =
    JNull
  | JBool bool
  | JNum real
  | JStr string
  | JArr "jvalue list"
  | JObj "(string \<times> jvalue) list"

type_synonym reading = "string \<rightharpoonup> jvalue"

text \<open>
  JavaScript truthiness of a property read: \<open>None\<close> is \<^verbatim>\<open>undefined\<close> (the property is
  absent). \<^verbatim>\<open>!x\<close> in the source is \<open>\<not> truthy x\<close>.
\<close>

fun truthy :: "jvalue option \<Rightarrow> bool" where
  "truthy None = False"
| "truthy (Some JNull) = False"
| "truthy (Some (JBool b)) = b"
| "truthy (Some (JNum x)) = (x \<noteq> 0)"
| "truthy (Some (JStr s)) = (s \<noteq> [])"
| "truthy (Some (JArr xs)) = True"
| "truthy (Some (JObj kvs)) = True"

datatype js_error = JsError string

text \<open>
  A template string \<^verbatim>\<open>`${x}`\<close> converts \<open>x\<close> to a string. For a value parsed from JSON
  the conversion raises a TypeError in one case only: an object that has a property
  \<^verbatim>\<open>toString\<close> (its value cannot be a function, and \<^verbatim>\<open>valueOf\<close> does not return a
  primitive), alone or as an element of an array, whose conversion joins the conversions of
  its elements. \<^verbatim>\<open>null\<close> and \<^verbatim>\<open>undefined\<close> elements of an array are printed as the empty
  string, an absent property (\<open>None\<close>) as \<^verbatim>\<open>undefined\<close>.
\<close>

fun printable :: "jvalue \<Rightarrow> bool" where
  "printable (JArr xs) = list_all printable xs"
| "printable (JObj kvs) = (map_of kvs ''toString'' = None)"
| "printable v = True"

fun template_ok :: "jvalue option \<Rightarrow> bool" where
  "template_ok None = True"
| "template_ok (Some v) = printable v"

definition cannot_convert :: js_error where
  "cannot_convert = JsError ''Cannot convert object to primitive value''"

section \<open>The state of the server process\<close>

text \<open>
  \<^verbatim>\<open>storage/data.store.js\<close>: the module variable \<^verbatim>\<open>dataStore\<close> with its
  \<^verbatim>\<open>readings\<close> array and \<^verbatim>\<open>metadata\<close> object.
\<close>

record store_metadata =
  initialized :: "string option"
  totalReadingsReceived :: nat

record data_store =
  readings :: "reading list"
  metadata :: store_metadata

text \<open>
  \<^verbatim>\<open>websocket/ws.server.js\<close>: a client of the WebSocket server is an object of the
  \<^verbatim>\<open>ws\<close> library. The model keeps what the code reads of it (\<^verbatim>\<open>readyState\<close>, the
  remote address), what \<^verbatim>\<open>send\<close> does (\<open>sendThrows\<close> is the exception \<^verbatim>\<open>send\<close> raises
  on this socket, if any; otherwise the message reaches the peer and is appended to
  \<open>received\<close>), and whether the \<^verbatim>\<open>'connection'\<close> callback has registered the socket's
  \<^verbatim>\<open>'message'\<close>, \<^verbatim>\<open>'close'\<close> and \<^verbatim>\<open>'error'\<close> handlers (\<open>handlersRegistered\<close>).
\<close>

datatype ready_state = CONNECTING | OPEN | CLOSING | CLOSED

datatype ws_message =
    ConnectionMsg string nat
  | PongMsg string
  | SensorReadingMsg reading string

record socket =
  clientIp :: string
  readyState :: ready_state
  sendThrows :: "js_error option"
  received :: "ws_message list"
  handlersRegistered :: bool

text \<open>Every \<^verbatim>\<open>console.log\<close>, \<^verbatim>\<open>console.warn\<close> and \<^verbatim>\<open>console.error\<close> of the modelled code.\<close>

datatype log_event =
    LogStoreInitialized
  | LogRingBufferRemoved "jvalue option"
  | LogStoreCleared nat
  | LogWsInitialized
  | LogWsNotInitialized
  | LogWsSendFailed js_error
  | LogWsBroadcasted nat nat
  | LogWsClientConnected string
  | LogWsReceived string "jvalue option"
  | LogWsMessageError js_error
  | LogWsClientDisconnected string nat
  | LogWsClientError string js_error
  | LogCsvWriteFailed js_error
  | LogSensor "jvalue option" "jvalue option" "jvalue option"
  | LogHandleError js_error
  | LogRouteError js_error

text \<open>
  The module-level variables of the backend, as one state: the data store, the WebSocket
  server (\<open>wsServer\<close> is False while the variable is \<^verbatim>\<open>null\<close>), the set
  \<^verbatim>\<open>connectedClients\<close> (references to socket objects, in insertion order, as a JavaScript
  \<^verbatim>\<open>Set\<close> iterates), the socket objects themselves, the CSV file, and the console.
  \<open>fsThrows\<close> is the exception \<^verbatim>\<open>fs.appendFileSync\<close> raises, if any.
\<close>

record server =
  dataStore :: data_store
  wsServer :: bool
  connectedClients :: "nat list"
  sockets :: "nat \<Rightarrow> socket"
  csvLog :: "jvalue option list list"
  fsThrows :: "js_error option"
  console :: "log_event list"

definition console_log :: "log_event \<Rightarrow> server \<Rightarrow> server" where
  "console_log e st = st\<lparr>console := console st @ [e]\<rparr>"

section \<open>storage/data.store.js\<close>

text \<open>
  The source fixes the capacity in a module constant, \<^verbatim>\<open>const MAX_READINGS = 10000\<close>.
  The functions below take the capacity as their first argument \<open>cap\<close>, so that the
  behaviour can be stated for any capacity; the source is the instance \<open>cap = MAX_READINGS\<close>.
\<close>

definition MAX_READINGS :: nat where
  "MAX_READINGS = 10000"

definition initializeStorage :: "string \<Rightarrow> server \<Rightarrow> server" where
  "initializeStorage now st =
     console_log LogStoreInitialized
       (st\<lparr>dataStore := (dataStore st)\<lparr>metadata :=
              (metadata (dataStore st))\<lparr>initialized := Some now\<rparr>\<rparr>\<rparr>)"

text \<open>
  \<^verbatim>\<open>push\<close>, count, and \<^verbatim>\<open>shift\<close> when the array is longer than the capacity. After the
  \<^verbatim>\<open>push\<close> the array is not empty, so \<^verbatim>\<open>shift\<close> always returns an element. The log line
  prints \<^verbatim>\<open>removed.timestamp\<close> in a template string: when that value cannot be converted,
  the TypeError leaves \<^verbatim>\<open>addReading\<close> after the array and the counter have been updated.
  The first component of the result is the exception raised, if any.
\<close>

definition addReading :: "nat \<Rightarrow> reading \<Rightarrow> server \<Rightarrow> js_error option \<times> server" where
  "addReading cap reading st =
     (let pushed = readings (dataStore st) @ [reading];
          md = (metadata (dataStore st))
                 \<lparr>totalReadingsReceived := totalReadingsReceived (metadata (dataStore st)) + 1\<rparr>;
          st1 = st\<lparr>dataStore := (dataStore st)\<lparr>readings := pushed, metadata := md\<rparr>\<rparr>
      in if length pushed > cap then
           (case pushed of
              [] \<Rightarrow> (None, st1)
            | removed # rest \<Rightarrow>
                (let st2 = st1\<lparr>dataStore := (dataStore st1)\<lparr>readings := rest\<rparr>\<rparr>
                 in if template_ok (removed ''timestamp'')
                    then (None, console_log (LogRingBufferRemoved (removed ''timestamp'')) st2)
                    else (Some cannot_convert, st2)))
         else (None, st1))"

definition getDataStore :: "server \<Rightarrow> data_store" where
  "getDataStore st = dataStore st"

definition getAllReadings :: "server \<Rightarrow> reading list" where
  "getAllReadings st = readings (dataStore st)"

text \<open>\<open>None\<close> is the \<^verbatim>\<open>null\<close> the source returns for an empty array.\<close>

definition getLatestReading :: "server \<Rightarrow> reading option" where
  "getLatestReading st =
     (if length (readings (dataStore st)) = 0 then None
      else Some (readings (dataStore st) ! (length (readings (dataStore st)) - 1)))"

definition clearReadings :: "server \<Rightarrow> server" where
  "clearReadings st =
     (let count = length (readings (dataStore st))
      in console_log (LogStoreCleared count)
           (st\<lparr>dataStore := (dataStore st)\<lparr>readings := []\<rparr>\<rparr>))"

record storage_stats =
  currentReadings :: nat
  maxCapacity :: nat
  totalProcessed :: nat
  initializedStat :: "string option"

definition getStorageStats :: "nat \<Rightarrow> server \<Rightarrow> storage_stats" where
  "getStorageStats cap st =
     \<lparr>currentReadings = length (readings (dataStore st)),
      maxCapacity = cap,
      totalProcessed = totalReadingsReceived (metadata (dataStore st)),
      initializedStat = initialized (metadata (dataStore st))\<rparr>"

text \<open>The state when the modules have been loaded and nothing has run yet.\<close>

definition initial_server :: server where
  "initial_server =
     \<lparr>dataStore = \<lparr>readings = [], metadata = \<lparr>initialized = None, totalReadingsReceived = 0\<rparr>\<rparr>,
      wsServer = False,
      connectedClients = [],
      sockets = (\<lambda>c. \<lparr>clientIp = [], readyState = CLOSED, sendThrows = None, received = [],
                        handlersRegistered = False\<rparr>),
      csvLog = [],
      fsThrows = None,
      console = []\<rparr>"

text \<open>
  A sequence of appends: one call of \<open>addReading\<close> per reading, in order, each caller
  going on with the store as the call left it.
\<close>

fun addReadings :: "nat \<Rightarrow> reading list \<Rightarrow> server \<Rightarrow> server" where
  "addReadings cap [] st = st"
| "addReadings cap (r # rs) st = addReadings cap rs (snd (addReading cap r st))"

section \<open>websocket/ws.server.js\<close>

text \<open>
  \<^verbatim>\<open>connectedClients\<close> is a JavaScript \<^verbatim>\<open>Set\<close>: \<^verbatim>\<open>add\<close> keeps an element that is already
  there in its place and puts a new one last; \<^verbatim>\<open>delete\<close> of an absent element does nothing.
\<close>

definition Set_add :: "nat \<Rightarrow> nat list \<Rightarrow> nat list" where
  "Set_add x xs = (if x \<in> set xs then xs else xs @ [x])"

definition Set_delete :: "nat \<Rightarrow> nat list \<Rightarrow> nat list" where
  "Set_delete x xs = removeAll x xs"

text \<open>
  \<^verbatim>\<open>client.send(payload)\<close> of the \<^verbatim>\<open>ws\<close> library: it raises \<open>sendThrows\<close> when the
  socket has one; otherwise the message reaches the peer if the socket is open, and is
  dropped if it is not. The first component of the result is the exception raised, if any.
\<close>

definition send :: "ws_message \<Rightarrow> nat \<Rightarrow> server \<Rightarrow> js_error option \<times> server" where
  "send msg c st =
     (case sendThrows (sockets st c) of
        Some e \<Rightarrow> (Some e, st)
      | None \<Rightarrow>
          (None,
           if readyState (sockets st c) = OPEN
           then st\<lparr>sockets := (sockets st)
                  (c := (sockets st c)\<lparr>received := received (sockets st c) @ [msg]\<rparr>)\<rparr>
           else st))"

definition setupWebSocket :: "server \<Rightarrow> server" where
  "setupWebSocket st = console_log LogWsInitialized (st\<lparr>wsServer := True\<rparr>)"

text \<open>
  The \<^verbatim>\<open>'connection'\<close> callback. The welcome \<^verbatim>\<open>send\<close> is outside any \<^verbatim>\<open>try\<close>: its
  exception leaves the callback before the socket's handlers are registered, and the
  socket stays in \<^verbatim>\<open>connectedClients\<close>.
\<close>

definition on_connection :: "nat \<Rightarrow> string \<Rightarrow> server \<Rightarrow> js_error option \<times> server" where
  "on_connection ws now st =
     (let st1 = console_log (LogWsClientConnected (clientIp (sockets st ws))) st;
          st2 = st1\<lparr>connectedClients := Set_add ws (connectedClients st1)\<rparr>
      in case send (ConnectionMsg now (length (connectedClients st2))) ws st2 of
           (Some e, st3) \<Rightarrow> (Some e, st3)
         | (None, st3) \<Rightarrow>
             (None, st3\<lparr>sockets := (sockets st3)
                      (ws := (sockets st3 ws)\<lparr>handlersRegistered := True\<rparr>)\<rparr>))"

text \<open>
  \<^verbatim>\<open>message.type\<close> for a parsed message that is not \<^verbatim>\<open>null\<close>: the property of an object,
  \<^verbatim>\<open>undefined\<close> for a boolean, a number, a string or an array.
\<close>

fun message_type :: "jvalue \<Rightarrow> jvalue option" where
  "message_type (JObj kvs) = map_of kvs ''type''"
| "message_type v = None"

text \<open>
  The \<^verbatim>\<open>'message'\<close> handler. \<open>parsed\<close> is what \<^verbatim>\<open>JSON.parse(data)\<close> does: \<open>Inl e\<close> when it
  raises \<open>e\<close> (the text is not JSON), \<open>Inr v\<close> when it returns \<open>v\<close>. Reading \<^verbatim>\<open>.type\<close> of
  \<^verbatim>\<open>null\<close> raises a TypeError. Every exception is caught and logged by the handler.
\<close>

definition on_message :: "nat \<Rightarrow> js_error + jvalue \<Rightarrow> string \<Rightarrow> server \<Rightarrow> server" where
  "on_message ws parsed now st =
     (case parsed of
        Inl e \<Rightarrow> console_log (LogWsMessageError e) st
      | Inr JNull \<Rightarrow> console_log (LogWsMessageError (JsError ''TypeError'')) st
      | Inr message \<Rightarrow>
          (let ty = message_type message;
               st1 = console_log
                       (LogWsReceived (clientIp (sockets st ws))
                          (if truthy ty then ty else Some (JStr ''unknown''))) st
           in if ty = Some (JStr ''ping'') then
                (case send (PongMsg now) ws st1 of
                   (Some e, st2) \<Rightarrow> console_log (LogWsMessageError e) st2
                 | (None, st2) \<Rightarrow> st2)
              else st1))"

definition on_close :: "nat \<Rightarrow> server \<Rightarrow> server" where
  "on_close ws st =
     (let st1 = st\<lparr>connectedClients := Set_delete ws (connectedClients st)\<rparr>
      in console_log
           (LogWsClientDisconnected (clientIp (sockets st1 ws)) (length (connectedClients st1))) st1)"

definition on_error :: "nat \<Rightarrow> js_error \<Rightarrow> server \<Rightarrow> server" where
  "on_error ws e st = console_log (LogWsClientError (clientIp (sockets st ws)) e) st"

text \<open>
  \<^verbatim>\<open>forEach\<close> with a callback that may raise: the exception of a callback ends the
  iteration and leaves \<^verbatim>\<open>forEach\<close>.
\<close>

fun forEach :: "('a \<Rightarrow> 's \<Rightarrow> js_error option \<times> 's) \<Rightarrow> 'a list \<Rightarrow> 's \<Rightarrow> js_error option \<times> 's" where
  "forEach f [] s = (None, s)"
| "forEach f (x # xs) s =
     (case f x s of
        (Some e, s') \<Rightarrow> (Some e, s')
      | (None, s') \<Rightarrow> forEach f xs s')"


text \<open>The variables of \<^verbatim>\<open>broadcastToClients\<close> that its loop updates, with the state.\<close>

record broadcast_vars =
  srv :: server
  successCount :: nat
  failCount :: nat

text \<open>The callback of \<^verbatim>\<open>connectedClients.forEach\<close>: the \<^verbatim>\<open>try\<close>/\<^verbatim>\<open>catch\<close> around \<^verbatim>\<open>send\<close>.\<close>

definition broadcast_client :: "ws_message \<Rightarrow> nat \<Rightarrow> broadcast_vars \<Rightarrow> js_error option \<times> broadcast_vars" where
  "broadcast_client payload client v =
     (if readyState (sockets (srv v) client) = OPEN then
        (case send payload client (srv v) of
           (None, st') \<Rightarrow> (None, v\<lparr>srv := st', successCount := successCount v + 1\<rparr>)
         | (Some e, st') \<Rightarrow>
             (None, v\<lparr>srv := console_log (LogWsSendFailed e) st', failCount := failCount v + 1\<rparr>))
      else (None, v))"

definition broadcast_loop :: "ws_message \<Rightarrow> server \<Rightarrow> js_error option \<times> broadcast_vars" where
  "broadcast_loop payload st =
     forEach (broadcast_client payload) (connectedClients st)
       \<lparr>srv = st, successCount = 0, failCount = 0\<rparr>"

definition broadcastToClients :: "string \<Rightarrow> reading \<Rightarrow> server \<Rightarrow> js_error option \<times> server" where
  "broadcastToClients now sensorData st =
     (if \<not> wsServer st then (None, console_log LogWsNotInitialized st)
      else
        (case broadcast_loop (SensorReadingMsg sensorData now) st of
           (Some e, v) \<Rightarrow> (Some e, srv v)
         | (None, v) \<Rightarrow>
             (None,
              if length (connectedClients (srv v)) > 0
              then console_log
                     (LogWsBroadcasted (successCount v) (length (connectedClients (srv v)))) (srv v)
              else srv v)))"

definition getConnectedClientCount :: "server \<Rightarrow> nat" where
  "getConnectedClientCount st = length (connectedClients st)"

section \<open>services/sensor.service.js\<close>

definition csvFields :: "string list" where
  "csvFields = [''timestamp'', ''sensor_sn'', ''ppb'', ''temperature'', ''humidity'',
                ''adc_gas'', ''adc_temp'', ''adc_hum'']"

text \<open>
  One line of the CSV file is kept as the eight values the template string prints. The
  whole body is inside \<^verbatim>\<open>try\<close>: a value that cannot be converted, or a failing
  \<^verbatim>\<open>fs.appendFileSync\<close>, is logged and no line is written.
\<close>

definition appendToCSVLog :: "reading \<Rightarrow> server \<Rightarrow> server" where
  "appendToCSVLog sensorData st =
     (if \<not> list_all (\<lambda>field. template_ok (sensorData field)) csvFields
      then console_log (LogCsvWriteFailed cannot_convert) st
      else
        (case fsThrows st of
           Some e \<Rightarrow> console_log (LogCsvWriteFailed e) st
         | None \<Rightarrow> st\<lparr>csvLog := csvLog st @ [map sensorData csvFields]\<rparr>))"

text \<open>\<^verbatim>\<open>if (!sensorData.timestamp) sensorData.timestamp = new Date().toISOString()\<close>\<close>

definition add_timestamp :: "string \<Rightarrow> reading \<Rightarrow> reading" where
  "add_timestamp now sensorData =
     (if \<not> truthy (sensorData ''timestamp'')
      then sensorData(''timestamp'' \<mapsto> JStr now)
      else sensorData)"

text \<open>
  \<open>tIngest\<close> and \<open>tBroadcast\<close> are the two readings of the clock, in
  \<^verbatim>\<open>handleSensorData\<close> and in \<^verbatim>\<open>broadcastToClients\<close>. The result is \<open>Inr readingCount\<close>, or
  \<open>Inl e\<close> when the \<^verbatim>\<open>catch\<close> clause logs and rethrows \<open>e\<close>: the exception of
  \<^verbatim>\<open>addReading\<close>, which skips the CSV line and the broadcast, or the TypeError of the
  \<^verbatim>\<open>[SENSOR]\<close> log line, whose template string prints \<^verbatim>\<open>ppb\<close>, \<^verbatim>\<open>temperature\<close> and
  \<^verbatim>\<open>humidity\<close> after the store and the broadcast.
\<close>

definition sensor_line_ok :: "reading \<Rightarrow> bool" where
  "sensor_line_ok sensorData \<longleftrightarrow>
     template_ok (sensorData ''ppb'') \<and> template_ok (sensorData ''temperature'') \<and>
     template_ok (sensorData ''humidity'')"

definition handleSensorData ::
  "nat \<Rightarrow> string \<Rightarrow> string \<Rightarrow> reading \<Rightarrow> server \<Rightarrow> (js_error + nat) \<times> server" where
  "handleSensorData cap tIngest tBroadcast sensorData0 st =
     (let sensorData = add_timestamp tIngest sensorData0
      in case addReading cap sensorData st of
           (Some e, st1) \<Rightarrow> (Inl e, console_log (LogHandleError e) st1)
         | (None, st1) \<Rightarrow>
             (let st2 = appendToCSVLog sensorData st1
              in case broadcastToClients tBroadcast sensorData st2 of
                   (Some e, st3) \<Rightarrow> (Inl e, console_log (LogHandleError e) st3)
                 | (None, st3) \<Rightarrow>
                     (let store = getDataStore st3
                      in if sensor_line_ok sensorData
                         then (Inr (length (readings store)),
                               console_log
                                 (LogSensor (sensorData ''ppb'') (sensorData ''temperature'')
                                    (sensorData ''humidity'')) st3)
                         else (Inl cannot_convert,
                               console_log (LogHandleError cannot_convert) st3))))"

section \<open>routes/sensor.routes.js\<close>

datatype response =
    Status200 nat
  | Status400 "string list"
  | Status500 js_error

definition requiredFields :: "string list" where
  "requiredFields = [''timestamp'', ''sensor_sn'', ''ppb'', ''temperature'', ''humidity'']"

text \<open>\<^verbatim>\<open>requiredFields.filter(field => !(field in sensorData))\<close>\<close>

definition missing_fields :: "reading \<Rightarrow> string list" where
  "missing_fields sensorData = filter (\<lambda>field. sensorData field = None) requiredFields"

text \<open>
  \<^verbatim>\<open>router.post('/data')\<close>: \<open>Status400 missing\<close> is the response
  \<^verbatim>\<open>{error: 'Missing required fields', missing}\<close>, \<open>Status200 n\<close> the response with
  \<^verbatim>\<open>readingCount: n\<close>, \<open>Status500 e\<close> the answer of the \<^verbatim>\<open>catch\<close> clause.
\<close>

definition post_data ::
  "nat \<Rightarrow> string \<Rightarrow> string \<Rightarrow> reading \<Rightarrow> server \<Rightarrow> response \<times> server" where
  "post_data cap tIngest tBroadcast sensorData st =
     (let missing = missing_fields sensorData
      in if length missing > 0 then (Status400 missing, st)
         else
           (case handleSensorData cap tIngest tBroadcast sensorData st of
              (Inr readingCount, st') \<Rightarrow> (Status200 readingCount, st')
            | (Inl e, st') \<Rightarrow> (Status500 e, console_log (LogRouteError e) st')))"

section \<open>The events the server handles\<close>

text \<open>
  Node runs one handler at a time, to completion. An event is one call of a handler: a
  new connection, a message, the close or the error of a socket, or a request
  \<^verbatim>\<open>POST /api/sensor/data\<close>; each carries what the handler reads from the clock and from
  the network. \<open>SocketState\<close> is the \<^verbatim>\<open>ws\<close> library changing the state of a connection
  between two handlers. A message, a close or an error of a socket runs the handler only
  when the \<^verbatim>\<open>'connection'\<close> callback has registered it. What Node does with an exception
  that leaves the \<^verbatim>\<open>'connection'\<close> callback, or with an event that has no handler, is
  not the repository's code: \<open>step\<close> keeps the state as it is.
\<close>

datatype event =
    Connection nat string
  | Message nat "js_error + jvalue" string
  | Close nat
  | Error nat js_error
  | PostData string string reading
  | SocketState nat ready_state "js_error option"

fun step :: "nat \<Rightarrow> event \<Rightarrow> server \<Rightarrow> server" where
  "step cap (Connection ws now) st = snd (on_connection ws now st)"
| "step cap (Message ws parsed now) st =
     (if handlersRegistered (sockets st ws) then on_message ws parsed now st else st)"
| "step cap (Close ws) st =
     (if handlersRegistered (sockets st ws) then on_close ws st else st)"
| "step cap (Error ws e) st =
     (if handlersRegistered (sockets st ws) then on_error ws e st else st)"
| "step cap (PostData tIngest tBroadcast body) st = snd (post_data cap tIngest tBroadcast body st)"
| "step cap (SocketState ws rs thrown) st =
     st\<lparr>sockets := (sockets st)(ws := (sockets st ws)\<lparr>readyState := rs, sendThrows := thrown\<rparr>)\<rparr>"

fun run :: "nat \<Rightarrow> event list \<Rightarrow> server \<Rightarrow> server" where
  "run cap [] st = st"
| "run cap (ev # evs) st = run cap evs (step cap ev st)"

section \<open>Vocabulary of the statements\<close>

text \<open>
  What the environment decides for a client at the time of a broadcast: \<open>delivers\<close>, its
  connection is open and \<^verbatim>\<open>send\<close> does not raise; \<open>send_fails\<close>, it is open and \<^verbatim>\<open>send\<close>
  raises; \<open>send_failure\<close>, the line the \<^verbatim>\<open>catch\<close> clause logs for it, if any.
\<close>

definition delivers :: "server \<Rightarrow> nat \<Rightarrow> bool" where
  "delivers st c \<longleftrightarrow> readyState (sockets st c) = OPEN \<and> sendThrows (sockets st c) = None"

definition send_fails :: "server \<Rightarrow> nat \<Rightarrow> bool" where
  "send_fails st c \<longleftrightarrow> readyState (sockets st c) = OPEN \<and> sendThrows (sockets st c) \<noteq> None"

definition send_failure :: "server \<Rightarrow> nat \<Rightarrow> log_event option" where
  "send_failure st c =
     (if readyState (sockets st c) = OPEN then map_option LogWsSendFailed (sendThrows (sockets st c))
      else None)"

text \<open>The response that rejects a record for its missing fields (InvalidReading).\<close>

fun invalid_reading :: "response \<Rightarrow> bool" where
  "invalid_reading (Status400 missing) = True"
| "invalid_reading r = False"


section \<open>Concrete inputs\<close>

definition ppb_reading :: "real \<Rightarrow> reading" where
  "ppb_reading x =
     [''timestamp'' \<mapsto> JStr ''2024-01-30T10:30:45.123Z'', ''sensor_sn'' \<mapsto> JStr ''DGS2-001'',
      ''ppb'' \<mapsto> JNum x, ''temperature'' \<mapsto> JNum 23, ''humidity'' \<mapsto> JNum 65]"

text \<open>
  Request bodies: one without \<^verbatim>\<open>ppb\<close> and \<^verbatim>\<open>humidity\<close>, one without \<^verbatim>\<open>timestamp\<close>, one
  whose \<^verbatim>\<open>timestamp\<close> is the empty string, and one whose \<^verbatim>\<open>ppb\<close>, \<^verbatim>\<open>temperature\<close> and
  \<^verbatim>\<open>humidity\<close> are not numbers.
\<close>

definition missing_two :: reading where
  "missing_two =
     [''timestamp'' \<mapsto> JStr ''2024-01-30T10:30:45.123Z'', ''sensor_sn'' \<mapsto> JStr ''DGS2-001'',
      ''temperature'' \<mapsto> JNum 23]"

definition no_timestamp :: reading where
  "no_timestamp =
     [''sensor_sn'' \<mapsto> JStr ''DGS2-001'', ''ppb'' \<mapsto> JNum 45, ''temperature'' \<mapsto> JNum 23,
      ''humidity'' \<mapsto> JNum 65]"

definition empty_timestamp :: reading where
  "empty_timestamp =
     [''timestamp'' \<mapsto> JStr [], ''sensor_sn'' \<mapsto> JStr ''DGS2-001'', ''ppb'' \<mapsto> JNum 45,
      ''temperature'' \<mapsto> JNum 23, ''humidity'' \<mapsto> JNum 65]"

definition malformed_reading :: reading where
  "malformed_reading =
     [''timestamp'' \<mapsto> JStr ''2024-01-30T10:30:45.123Z'', ''sensor_sn'' \<mapsto> JStr ''DGS2-001'',
      ''ppb'' \<mapsto> JStr ''not a number'', ''temperature'' \<mapsto> JNull, ''humidity'' \<mapsto> JArr []]"

text \<open>
  Records with all five keys of which one value has a property \<^verbatim>\<open>toString\<close>, as in the
  JSON text \<^verbatim>\<open>{"toString": 1}\<close>: the \<^verbatim>\<open>ppb\<close> of the first, the \<^verbatim>\<open>timestamp\<close> of the
  second. A record with the keys of \<open>missing_two\<close> and other values.
\<close>

definition poison_reading :: reading where
  "poison_reading =
     [''timestamp'' \<mapsto> JStr ''2024-01-30T10:30:45.123Z'', ''sensor_sn'' \<mapsto> JStr ''DGS2-001'',
      ''ppb'' \<mapsto> JObj [(''toString'', JNum 1)], ''temperature'' \<mapsto> JNum 23,
      ''humidity'' \<mapsto> JNum 65]"

definition poison_timestamp :: reading where
  "poison_timestamp =
     [''timestamp'' \<mapsto> JObj [(''toString'', JNum 1)], ''sensor_sn'' \<mapsto> JStr ''DGS2-001'',
      ''ppb'' \<mapsto> JNum 45, ''temperature'' \<mapsto> JNum 23, ''humidity'' \<mapsto> JNum 65]"

definition other_values :: reading where
  "other_values =
     [''timestamp'' \<mapsto> JNull, ''sensor_sn'' \<mapsto> JNum 0, ''temperature'' \<mapsto> JStr ''warm'']"

text \<open>
  Three registered clients with open connections; \<^verbatim>\<open>send\<close> raises on the second.
\<close>

definition three_clients :: server where
  "three_clients =
     initial_server
       \<lparr>wsServer := True,
        connectedClients := [1, 2, 3],
        sockets := (\<lambda>c. \<lparr>clientIp = ''192.168.1.20'', readyState = OPEN,
                          sendThrows = (if c = 2 then Some (JsError ''write EPIPE'') else None),
                          received = [], handlersRegistered = True\<rparr>)\<rparr>"

text \<open>
  A fourth socket connects to the three clients; its welcome \<^verbatim>\<open>send\<close> will raise.
\<close>

definition newcomer_fails :: server where
  "newcomer_fails =
     three_clients
       \<lparr>sockets := (sockets three_clients)
          (4 := \<lparr>clientIp = ''192.168.1.24'', readyState = OPEN,
                 sendThrows = Some (JsError ''write EPIPE''), received = [],
                 handlersRegistered = False\<rparr>)\<rparr>"


section \<open>Properties of the store\<close>

lemma readings_addReading:
  "readings (dataStore (snd (addReading cap r st))) =
     (if length (readings (dataStore st)) < cap then readings (dataStore st) @ [r]
      else tl (readings (dataStore st) @ [r]))"
  by (cases "readings (dataStore st)") (auto simp: addReading_def Let_def console_log_def)

lemma total_addReading:
  "totalReadingsReceived (metadata (dataStore (snd (addReading cap r st)))) =
     totalReadingsReceived (metadata (dataStore st)) + 1"
  by (cases "readings (dataStore st)") (auto simp: addReading_def Let_def console_log_def)

lemma initialized_addReading:
  "initialized (metadata (dataStore (snd (addReading cap r st)))) =
     initialized (metadata (dataStore st))"
  by (cases "readings (dataStore st)") (auto simp: addReading_def Let_def console_log_def)

lemma length_addReading:
  "length (readings (dataStore st)) \<le> cap \<Longrightarrow>
   length (readings (dataStore (snd (addReading cap r st)))) = min cap (length (readings (dataStore st)) + 1)"
  by (simp add: readings_addReading)

lemma readings_addReadings:
  "length (readings (dataStore st)) \<le> cap \<Longrightarrow>
   readings (dataStore (addReadings cap rs st)) =
     drop (length (readings (dataStore st) @ rs) - cap) (readings (dataStore st) @ rs)"
proof (induction rs arbitrary: st)
  case Nil
  then show ?case by simp
next
  case (Cons r rs)
  let ?xs = "readings (dataStore st)"
  let ?st1 = "snd (addReading cap r st)"
  have len1: "length (readings (dataStore ?st1)) \<le> cap"
    using Cons.prems by (simp add: length_addReading)
  have step: "readings (dataStore (addReadings cap rs ?st1)) =
      drop (length (readings (dataStore ?st1) @ rs) - cap) (readings (dataStore ?st1) @ rs)"
    by (rule Cons.IH [OF len1])
  show ?case
  proof (cases "length ?xs < cap")
    case True
    then show ?thesis using step by (simp add: readings_addReading)
  next
    case False
    with Cons.prems have eq: "length ?xs = cap" by simp
    have r1: "readings (dataStore ?st1) = tl (?xs @ [r])"
      using False by (simp add: readings_addReading)
    have t1: "tl (?xs @ [r]) @ rs = drop 1 (?xs @ r # rs)"
      by (cases ?xs) simp_all
    have l1: "length (tl (?xs @ [r]) @ rs) - cap = length rs"
      using eq by simp
    have l2: "length (?xs @ r # rs) - cap = length rs + 1"
      using eq by simp
    have "readings (dataStore (addReadings cap rs ?st1)) =
        drop (length (tl (?xs @ [r]) @ rs) - cap) (tl (?xs @ [r]) @ rs)"
      using step by (simp only: r1)
    also have "\<dots> = drop (length rs) (drop 1 (?xs @ r # rs))"
      by (simp only: l1, simp only: t1)
    also have "\<dots> = drop (length (?xs @ r # rs) - cap) (?xs @ r # rs)"
      by (simp only: l2 drop_drop)
    finally show ?thesis by simp
  qed
qed

lemma total_addReadings:
  "totalReadingsReceived (metadata (dataStore (addReadings cap rs st))) =
     totalReadingsReceived (metadata (dataStore st)) + length rs"
  by (induction rs arbitrary: st) (simp_all add: total_addReading)

lemma initialized_addReadings:
  "initialized (metadata (dataStore (addReadings cap rs st))) = initialized (metadata (dataStore st))"
  by (induction rs arbitrary: st) (simp_all add: initialized_addReading)


lemma getAllReadings_full_append:
  "length (getAllReadings s) = cap \<Longrightarrow> getAllReadings (snd (addReading cap r s)) = tl (getAllReadings s @ [r])"
  by (simp add: getAllReadings_def readings_addReading)

lemma getLatestReading_last:
  "getLatestReading st = (if getAllReadings st = [] then None else Some (last (getAllReadings st)))"
  by (simp add: getLatestReading_def getAllReadings_def last_conv_nth)

section \<open>The claims about the store\<close>

text \<open>
  C2. When more readings than the capacity are appended to a store that holds at most
  \<open>cap\<close> readings, \<open>getAllReadings\<close> returns exactly \<open>cap\<close> readings, namely the last
  \<open>cap\<close> of the appended ones in arrival order, and \<open>getLatestReading\<close> returns the last
  one appended. Each append to a full store removes exactly the oldest reading. With
  capacity 3 and readings of ppb 1, 2, 3, 4 the store holds those of ppb 2, 3, 4 and the
  latest is the one of ppb 4.
\<close>

theorem store_overflow_keeps_most_recent:
  assumes "length (getAllReadings st) \<le> cap" and "cap < length rs"
  shows "length (getAllReadings (addReadings cap rs st)) = cap \<and>
         getAllReadings (addReadings cap rs st) = drop (length rs - cap) rs \<and>
         getLatestReading (addReadings cap rs st) = (if cap = 0 then None else Some (last rs)) \<and>
         (length (getAllReadings s) = cap \<longrightarrow>
            getAllReadings (snd (addReading cap r s)) = tl (getAllReadings s @ [r]))"
proof -
  have inv: "length (readings (dataStore st)) \<le> cap"
    using assms(1) by (simp add: getAllReadings_def)
  have all: "getAllReadings (addReadings cap rs st) = drop (length rs - cap) rs"
    using assms inv by (simp add: getAllReadings_def readings_addReadings)
  have len: "length (getAllReadings (addReadings cap rs st)) = cap"
    using assms(2) by (simp add: all)
  have latest: "getLatestReading (addReadings cap rs st) = (if cap = 0 then None else Some (last rs))"
    using assms(2) by (auto simp add: getLatestReading_last all)
  show ?thesis
    using all len latest getAllReadings_full_append by blast
qed

theorem store_overflow_witness:
  "length (getAllReadings initial_server) \<le> 3 \<and>
   3 < length (map ppb_reading [1, 2, 3, 4]) \<and>
   length (getAllReadings (addReadings 3 (map ppb_reading [1, 2, 3]) initial_server)) = 3 \<and>
   getAllReadings (addReadings 3 (map ppb_reading [1, 2, 3, 4]) initial_server) =
     map ppb_reading [2, 3, 4] \<and>
   getLatestReading (addReadings 3 (map ppb_reading [1, 2, 3, 4]) initial_server) =
     Some (ppb_reading 4) \<and>
   getAllReadings (snd (addReading 3 (ppb_reading 4)
      (addReadings 3 (map ppb_reading [1, 2, 3]) initial_server))) = map ppb_reading [2, 3, 4]"
proof -
  have h1: "length (getAllReadings initial_server) \<le> 3"
    by (simp add: getAllReadings_def initial_server_def)
  have h2: "3 < length (map ppb_reading [1, 2, 3, 4])"
    by simp
  have h3: "getAllReadings (addReadings 3 (map ppb_reading [1, 2, 3]) initial_server)
      = map ppb_reading [1, 2, 3]"
    by (simp add: getAllReadings_def addReading_def initial_server_def)
  show ?thesis
    using h1 h2 h3
      store_overflow_keeps_most_recent [OF h1 h2,
        of "addReadings 3 (map ppb_reading [1, 2, 3]) initial_server" "ppb_reading 4"]
    by simp
qed

text \<open>
  C3. After any sequence of \<open>N\<close> appends \<open>totalReadingsReceived\<close> has grown by exactly
  \<open>N\<close>, whatever was evicted; on a store that starts empty it is \<open>N\<close>, while the number of
  readings held is \<open>min cap N\<close>, so the two differ as soon as \<open>N\<close> exceeds the capacity.
\<close>

theorem totalReceived_counts_every_append:
  "totalReadingsReceived (metadata (dataStore (addReadings cap rs st))) =
     totalReadingsReceived (metadata (dataStore st)) + length rs \<and>
   totalProcessed (getStorageStats cap (addReadings cap rs initial_server)) = length rs \<and>
   currentReadings (getStorageStats cap (addReadings cap rs initial_server)) = min cap (length rs)"
proof -
  have inv: "length (readings (dataStore initial_server)) \<le> cap"
    by (simp add: initial_server_def)
  have cur: "length (readings (dataStore (addReadings cap rs initial_server))) = min cap (length rs)"
    by (simp add: readings_addReadings [OF inv]) (simp add: initial_server_def)
  have tot: "totalReadingsReceived (metadata (dataStore (addReadings cap rs initial_server))) = length rs"
    by (simp add: total_addReadings) (simp add: initial_server_def)
  have "totalReadingsReceived (metadata (dataStore (addReadings cap rs st))) =
      totalReadingsReceived (metadata (dataStore st)) + length rs"
    by (rule total_addReadings)
  then show ?thesis
    by (simp add: getStorageStats_def cur tot)
qed

text \<open>
  C4. When at most \<open>cap\<close> readings are appended to a store that holds none,
  \<open>getAllReadings\<close> returns exactly those readings in arrival order and
  \<open>getLatestReading\<close> returns the last one; on a store that holds no reading, and on the
  freshly constructed store, \<open>getLatestReading\<close> returns \<^verbatim>\<open>null\<close> (\<open>None\<close>) and no reading.
\<close>

theorem store_within_capacity_keeps_all:
  assumes "getAllReadings st = []" and "length rs \<le> cap"
  shows "getAllReadings (addReadings cap rs st) = rs \<and>
         getLatestReading (addReadings cap rs st) = (if rs = [] then None else Some (last rs)) \<and>
         getLatestReading st = None \<and>
         getLatestReading initial_server = None"
proof -
  have e: "readings (dataStore st) = []"
    using assms(1) by (simp add: getAllReadings_def)
  have all: "getAllReadings (addReadings cap rs st) = rs"
    using assms(2) e by (simp add: getAllReadings_def readings_addReadings)
  have "getLatestReading initial_server = None"
    by (simp add: getLatestReading_def initial_server_def)
  then show ?thesis
    using assms(1) by (simp add: getLatestReading_last all)
qed

theorem store_within_capacity_witness:
  "getAllReadings (initializeStorage ''2024-01-30T10:00:00.000Z'' initial_server) = [] \<and>
   length (map ppb_reading [1, 2]) \<le> 3 \<and>
   getAllReadings (addReadings 3 (map ppb_reading [1, 2])
      (initializeStorage ''2024-01-30T10:00:00.000Z'' initial_server)) = map ppb_reading [1, 2] \<and>
   getLatestReading (addReadings 3 (map ppb_reading [1, 2])
      (initializeStorage ''2024-01-30T10:00:00.000Z'' initial_server)) = Some (ppb_reading 2) \<and>
   getLatestReading (initializeStorage ''2024-01-30T10:00:00.000Z'' initial_server) = None"
proof -
  have h1: "getAllReadings (initializeStorage ''2024-01-30T10:00:00.000Z'' initial_server) = []"
    by (simp add: getAllReadings_def initializeStorage_def console_log_def initial_server_def)
  have h2: "length (map ppb_reading [1, 2]) \<le> 3"
    by simp
  show ?thesis
    using h1 h2 store_within_capacity_keeps_all [OF h1 h2]
    by simp
qed

text \<open>
  C10. \<open>clearReadings\<close> empties the readings (\<open>getAllReadings\<close> is then empty and
  \<open>getLatestReading\<close> is \<^verbatim>\<open>null\<close>) and leaves the metadata, \<open>totalReadingsReceived\<close> and
  \<open>initialized\<close>, as well as the WebSocket state and the CSV file as they were.
\<close>

theorem clearReadings_keeps_metadata:
  "getAllReadings (clearReadings st) = [] \<and>
   getLatestReading (clearReadings st) = None \<and>
   totalReadingsReceived (metadata (dataStore (clearReadings st))) =
     totalReadingsReceived (metadata (dataStore st)) \<and>
   initialized (metadata (dataStore (clearReadings st))) = initialized (metadata (dataStore st)) \<and>
   metadata (dataStore (clearReadings st)) = metadata (dataStore st) \<and>
   wsServer (clearReadings st) = wsServer st \<and>
   connectedClients (clearReadings st) = connectedClients st \<and>
   sockets (clearReadings st) = sockets st \<and>
   csvLog (clearReadings st) = csvLog st"
  by (simp add: clearReadings_def getAllReadings_def getLatestReading_def console_log_def Let_def)

section \<open>Properties of the broadcast\<close>

subsection \<open>One callback of the broadcast loop\<close>

lemma broadcast_client_no_raise: "fst (broadcast_client p c v) = None"
  by (simp add: broadcast_client_def send_def split: option.splits)

lemma broadcast_client_frame:
  "dataStore (srv (snd (broadcast_client p c v))) = dataStore (srv v)"
  "connectedClients (srv (snd (broadcast_client p c v))) = connectedClients (srv v)"
  "wsServer (srv (snd (broadcast_client p c v))) = wsServer (srv v)"
  "csvLog (srv (snd (broadcast_client p c v))) = csvLog (srv v)"
  "fsThrows (srv (snd (broadcast_client p c v))) = fsThrows (srv v)"
  by (simp_all add: broadcast_client_def send_def console_log_def split: option.splits)

lemma broadcast_client_socket:
  "readyState (sockets (srv (snd (broadcast_client p c v))) c') = readyState (sockets (srv v) c')"
  "sendThrows (sockets (srv (snd (broadcast_client p c v))) c') = sendThrows (sockets (srv v) c')"
  "clientIp (sockets (srv (snd (broadcast_client p c v))) c') = clientIp (sockets (srv v) c')"
  by (simp_all add: broadcast_client_def send_def console_log_def split: option.splits)

lemma broadcast_client_pred:
  "delivers (srv (snd (broadcast_client p c v))) = delivers (srv v)"
  "send_fails (srv (snd (broadcast_client p c v))) = send_fails (srv v)"
  "send_failure (srv (snd (broadcast_client p c v))) = send_failure (srv v)"
  by (rule ext, simp add: delivers_def send_fails_def send_failure_def broadcast_client_socket)+

lemma broadcast_client_received:
  "received (sockets (srv (snd (broadcast_client p c v))) c') =
     received (sockets (srv v) c') @ (if c' = c \<and> delivers (srv v) c then [p] else [])"
  by (simp add: broadcast_client_def send_def console_log_def delivers_def split: option.splits)

lemma broadcast_client_counts:
  "successCount (snd (broadcast_client p c v)) = successCount v + (if delivers (srv v) c then 1 else 0)"
  "failCount (snd (broadcast_client p c v)) = failCount v + (if send_fails (srv v) c then 1 else 0)"
  by (auto simp add: broadcast_client_def send_def console_log_def delivers_def send_fails_def
      split: option.splits)

lemma broadcast_client_console:
  "console (srv (snd (broadcast_client p c v))) =
     console (srv v) @ (case send_failure (srv v) c of Some e \<Rightarrow> [e] | None \<Rightarrow> [])"
  by (simp add: broadcast_client_def send_def console_log_def send_failure_def split: option.splits)

subsection \<open>The whole loop\<close>

lemma forEach_broadcast_Cons:
  "forEach (broadcast_client p) (c # cs) v =
     forEach (broadcast_client p) cs (snd (broadcast_client p c v))"
  using broadcast_client_no_raise [of p c v]
  by (cases "broadcast_client p c v") simp


lemma forEach_broadcast_no_raise: "fst (forEach (broadcast_client p) cs v) = None"
  by (induction cs arbitrary: v) (simp_all add: forEach_broadcast_Cons del: forEach.simps(2))

lemma forEach_broadcast_frame:
  "dataStore (srv (snd (forEach (broadcast_client p) cs v))) = dataStore (srv v)"
  "connectedClients (srv (snd (forEach (broadcast_client p) cs v))) = connectedClients (srv v)"
  "wsServer (srv (snd (forEach (broadcast_client p) cs v))) = wsServer (srv v)"
  "csvLog (srv (snd (forEach (broadcast_client p) cs v))) = csvLog (srv v)"
  "fsThrows (srv (snd (forEach (broadcast_client p) cs v))) = fsThrows (srv v)"
  by (induction cs arbitrary: v)
     (simp_all add: forEach_broadcast_Cons broadcast_client_frame del: forEach.simps(2))


lemma forEach_broadcast_received:
  "received (sockets (srv (snd (forEach (broadcast_client p) cs v))) c') =
     received (sockets (srv v) c') @
       (if delivers (srv v) c' then replicate (count_list cs c') p else [])"
  by (induction cs arbitrary: v)
     (simp_all add: forEach_broadcast_Cons broadcast_client_received broadcast_client_pred
        del: forEach.simps(2))

lemma forEach_broadcast_counts:
  "successCount (snd (forEach (broadcast_client p) cs v)) =
     successCount v + length (filter (delivers (srv v)) cs)"
  "failCount (snd (forEach (broadcast_client p) cs v)) =
     failCount v + length (filter (send_fails (srv v)) cs)"
  by (induction cs arbitrary: v)
     (simp_all add: forEach_broadcast_Cons broadcast_client_counts broadcast_client_pred
        del: forEach.simps(2))

lemma forEach_broadcast_console:
  "console (srv (snd (forEach (broadcast_client p) cs v))) =
     console (srv v) @ List.map_filter (send_failure (srv v)) cs"
  by (induction cs arbitrary: v)
     (simp_all add: forEach_broadcast_Cons broadcast_client_console broadcast_client_pred
        del: forEach.simps(2) split: option.splits)




lemma broadcast_loop_no_raise: "fst (broadcast_loop p st) = None"
  by (simp add: broadcast_loop_def forEach_broadcast_no_raise)

lemma broadcastToClients_no_raise: "fst (broadcastToClients now r st) = None"
  using broadcast_loop_no_raise [of "SensorReadingMsg r now" st]
  by (cases "broadcast_loop (SensorReadingMsg r now) st") (simp add: broadcastToClients_def)

lemma broadcastToClients_eq:
  "wsServer st \<Longrightarrow>
   snd (broadcastToClients now r st) =
     (let v = snd (broadcast_loop (SensorReadingMsg r now) st)
      in if length (connectedClients (srv v)) > 0
         then console_log (LogWsBroadcasted (successCount v) (length (connectedClients (srv v)))) (srv v)
         else srv v)"
  using broadcast_loop_no_raise [of "SensorReadingMsg r now" st]
  by (cases "broadcast_loop (SensorReadingMsg r now) st") (simp add: broadcastToClients_def)

lemma broadcast_loop_props:
  "connectedClients (srv (snd (broadcast_loop p st))) = connectedClients st"
  "dataStore (srv (snd (broadcast_loop p st))) = dataStore st"
  "successCount (snd (broadcast_loop p st)) = length (filter (delivers st) (connectedClients st))"
  "failCount (snd (broadcast_loop p st)) = length (filter (send_fails st) (connectedClients st))"
  "console (srv (snd (broadcast_loop p st))) =
     console st @ List.map_filter (send_failure st) (connectedClients st)"
  "received (sockets (srv (snd (broadcast_loop p st))) c) =
     received (sockets st c) @
       (if delivers st c then replicate (count_list (connectedClients st) c) p else [])"
  by (simp_all add: broadcast_loop_def forEach_broadcast_frame forEach_broadcast_counts
      forEach_broadcast_console forEach_broadcast_received)

lemma three_clients_simps:
  "wsServer three_clients"
  "connectedClients three_clients = [1, 2, 3]"
  "readyState (sockets three_clients c) = OPEN"
  "sendThrows (sockets three_clients c) = (if c = 2 then Some (JsError ''write EPIPE'') else None)"
  "received (sockets three_clients c) = []"
  "console three_clients = []"
  "handlersRegistered (sockets three_clients c)"
  "delivers three_clients c \<longleftrightarrow> c \<noteq> 2"
  "send_fails three_clients c \<longleftrightarrow> c = 2"
  "send_failure three_clients c =
     (if c = 2 then Some (LogWsSendFailed (JsError ''write EPIPE'')) else None)"
  by (simp_all add: three_clients_def initial_server_def delivers_def send_fails_def
      send_failure_def)

section \<open>The claims about the broadcast\<close>



section \<open>Properties of the service and of the route\<close>



lemma addReading_frame:
  "wsServer (snd (addReading cap r st)) = wsServer st"
  "connectedClients (snd (addReading cap r st)) = connectedClients st"
  "sockets (snd (addReading cap r st)) = sockets st"
  "csvLog (snd (addReading cap r st)) = csvLog st"
  "fsThrows (snd (addReading cap r st)) = fsThrows st"
  by (cases "readings (dataStore st)"; simp add: addReading_def Let_def console_log_def)+

text \<open>\<open>addReading\<close> raises exactly when it evicts a reading whose timestamp cannot be printed.\<close>

lemma addReading_raises:
  "fst (addReading cap r st) =
     (if length (readings (dataStore st)) < cap
         \<or> template_ok (hd (readings (dataStore st) @ [r]) ''timestamp'')
      then None else Some cannot_convert)"
  by (cases "readings (dataStore st)") (auto simp add: addReading_def Let_def)

lemma appendToCSVLog_frame:
  "dataStore (appendToCSVLog r st) = dataStore st"
  "wsServer (appendToCSVLog r st) = wsServer st"
  "connectedClients (appendToCSVLog r st) = connectedClients st"
  "sockets (appendToCSVLog r st) = sockets st"
  by (simp_all add: appendToCSVLog_def console_log_def split: option.splits)

lemma broadcastToClients_dataStore:
  "dataStore (snd (broadcastToClients now r st)) = dataStore st"
proof (cases "wsServer st")
  case True
  then show ?thesis
    by (simp add: broadcastToClients_eq Let_def console_log_def broadcast_loop_props)
next
  case False
  then show ?thesis
    by (simp add: broadcastToClients_def console_log_def)
qed



lemma getLatestReading_addReading:
  "0 < cap \<Longrightarrow> getLatestReading (snd (addReading cap r st)) = Some r"
  by (cases "readings (dataStore st)")
     (auto simp add: getLatestReading_last getAllReadings_def readings_addReading)

lemma getLatestReading_cong:
  "dataStore st' = dataStore st \<Longrightarrow> getLatestReading st' = getLatestReading st"
  by (simp add: getLatestReading_def)

lemma handleSensorData_eq:
  "handleSensorData cap tI tB body st =
     (let sd = add_timestamp tI body;
          st1 = snd (addReading cap sd st);
          st3 = snd (broadcastToClients tB sd (appendToCSVLog sd st1))
      in case fst (addReading cap sd st) of
           Some e \<Rightarrow> (Inl e, console_log (LogHandleError e) st1)
         | None \<Rightarrow>
             if sensor_line_ok sd
             then (Inr (length (readings (dataStore st3))),
                   console_log (LogSensor (sd ''ppb'') (sd ''temperature'') (sd ''humidity'')) st3)
             else (Inl cannot_convert, console_log (LogHandleError cannot_convert) st3))"
proof -
  let ?sd = "add_timestamp tI body"
  obtain a st1 where ar: "addReading cap ?sd st = (a, st1)"
    by (cases "addReading cap ?sd st")
  let ?st2 = "appendToCSVLog ?sd st1"
  obtain e st3 where b: "broadcastToClients tB ?sd ?st2 = (e, st3)"
    by (cases "broadcastToClients tB ?sd ?st2")
  have "e = None"
    using broadcastToClients_no_raise [of tB ?sd ?st2] by (simp add: b)
  then show ?thesis
    by (cases a) (simp_all add: handleSensorData_def Let_def ar b getDataStore_def)
qed

lemma post_data_eq:
  "post_data cap tI tB body st =
     (if missing_fields body \<noteq> [] then (Status400 (missing_fields body), st)
      else
        (case fst (handleSensorData cap tI tB body st) of
           Inr n \<Rightarrow> (Status200 n, snd (handleSensorData cap tI tB body st))
         | Inl e \<Rightarrow>
             (Status500 e, console_log (LogRouteError e) (snd (handleSensorData cap tI tB body st)))))"
  by (cases "handleSensorData cap tI tB body st")
     (simp add: post_data_def Let_def split: sum.splits)

lemma missing_fields_set:
  "set (missing_fields body) = {f \<in> set requiredFields. body f = None}"
  by (auto simp add: missing_fields_def)

lemma handleSensorData_dataStore:
  "dataStore (snd (handleSensorData cap tI tB body st)) =
     dataStore (snd (addReading cap (add_timestamp tI body) st))"
  by (simp add: handleSensorData_eq Let_def console_log_def broadcastToClients_dataStore
      appendToCSVLog_frame split: option.splits)

lemma post_data_dataStore:
  "missing_fields body = [] \<Longrightarrow>
   dataStore (snd (post_data cap tI tB body st)) =
     dataStore (snd (addReading cap (add_timestamp tI body) st))"
  by (simp add: post_data_eq handleSensorData_dataStore console_log_def split: sum.splits)

lemma post_data_latest:
  "missing_fields body = [] \<Longrightarrow> 0 < cap \<Longrightarrow>
   getLatestReading (snd (post_data cap tI tB body st)) = Some (add_timestamp tI body)"
  using getLatestReading_cong [OF post_data_dataStore]
  by (simp add: getLatestReading_addReading)

lemma post_data_invalid:
  "invalid_reading (fst (post_data cap tI tB body st)) = (missing_fields body \<noteq> [])"
  by (simp add: post_data_eq split: sum.splits)

lemma handleSensorData_latest:
  "0 < cap \<Longrightarrow>
   getLatestReading (snd (handleSensorData cap tI tB body st)) = Some (add_timestamp tI body)"
  using getLatestReading_cong [OF handleSensorData_dataStore]
  by (simp add: getLatestReading_addReading)

text \<open>
  Called directly, \<open>handleSensorData\<close> fills in an absent timestamp; through the route
  it never sees a record without one.
\<close>

lemma handleSensorData_fills_absent_timestamp:
  "0 < cap \<Longrightarrow> body ''timestamp'' = None \<Longrightarrow>
   getLatestReading (snd (handleSensorData cap tI tB body st)) =
     Some (body(''timestamp'' \<mapsto> JStr tI))"
  by (simp add: handleSensorData_latest) (simp add: add_timestamp_def)

lemma add_timestamp_apply:
  "add_timestamp tI body f =
     (if f = ''timestamp'' \<and> \<not> truthy (body ''timestamp'') then Some (JStr tI) else body f)"
  by (simp add: add_timestamp_def)

lemma missing_fields_dom:
  "missing_fields body = filter (\<lambda>f. f \<notin> dom body) requiredFields"
  by (simp add: missing_fields_def dom_def)

lemma concrete_missing_fields:
  "missing_fields (ppb_reading x) = []"
  "missing_fields no_timestamp = [''timestamp'']"
  "missing_fields empty_timestamp = []"
  "missing_fields malformed_reading = []"
  "missing_fields poison_reading = []"
  "missing_fields poison_timestamp = []"
  "missing_fields missing_two = [''ppb'', ''humidity'']"
  "missing_fields other_values = [''ppb'', ''humidity'']"
  by (simp_all add: missing_fields_def requiredFields_def ppb_reading_def no_timestamp_def
      empty_timestamp_def malformed_reading_def poison_reading_def poison_timestamp_def
      missing_two_def other_values_def)

lemma concrete_add_timestamp:
  "add_timestamp tI (ppb_reading x) = ppb_reading x"
  "add_timestamp tI malformed_reading = malformed_reading"
  "add_timestamp tI poison_reading = poison_reading"
  "add_timestamp tI poison_timestamp = poison_timestamp"
  "add_timestamp tI empty_timestamp = empty_timestamp(''timestamp'' \<mapsto> JStr tI)"
  by (simp_all add: add_timestamp_def ppb_reading_def malformed_reading_def empty_timestamp_def
      poison_reading_def poison_timestamp_def)

lemma concrete_sensor_line:
  "sensor_line_ok (ppb_reading x)"
  "sensor_line_ok malformed_reading"
  "sensor_line_ok poison_timestamp"
  "sensor_line_ok (empty_timestamp(''timestamp'' \<mapsto> JStr tI))"
  "\<not> sensor_line_ok poison_reading"
  by (simp_all add: sensor_line_ok_def ppb_reading_def malformed_reading_def
      poison_timestamp_def empty_timestamp_def poison_reading_def)

lemma concrete_readings:
  "readings (dataStore initial_server) = []"
  "readings (dataStore three_clients) = []"
  by (simp_all add: three_clients_def initial_server_def)

section \<open>The claims about the ingestion endpoint\<close>

text \<open>
  C5. A record that lacks one of \<^verbatim>\<open>sensor_sn\<close>, \<^verbatim>\<open>ppb\<close>, \<^verbatim>\<open>temperature\<close>, \<^verbatim>\<open>humidity\<close> is
  rejected with the list of every required field it lacks, in the order of
  \<open>requiredFields\<close>, and the state is the one before the request: no reading is appended,
  \<open>totalReadingsReceived\<close> is unchanged, and no client receives anything.
\<close>

theorem missing_field_rejected_state_unchanged:
  assumes "f \<in> {''sensor_sn'', ''ppb'', ''temperature'', ''humidity''}" and "body f = None"
  shows "post_data cap tI tB body st = (Status400 (missing_fields body), st) \<and>
         f \<in> set (missing_fields body) \<and>
         set (missing_fields body) = {g \<in> set requiredFields. body g = None} \<and>
         distinct (missing_fields body) \<and>
         length (getAllReadings (snd (post_data cap tI tB body st))) = length (getAllReadings st) \<and>
         totalReadingsReceived (metadata (dataStore (snd (post_data cap tI tB body st)))) =
           totalReadingsReceived (metadata (dataStore st)) \<and>
         received (sockets (snd (post_data cap tI tB body st)) c) = received (sockets st c)"
proof -
  have req: "f \<in> set requiredFields"
    using assms(1) by (auto simp add: requiredFields_def)
  have mem: "f \<in> set (missing_fields body)"
    using req assms(2) by (simp add: missing_fields_set)
  then have ne: "missing_fields body \<noteq> []"
    by auto
  have rej: "post_data cap tI tB body st = (Status400 (missing_fields body), st)"
    using ne by (simp add: post_data_eq)
  have dis: "distinct (missing_fields body)"
    by (simp add: missing_fields_def requiredFields_def)
  show ?thesis
    using mem dis by (simp add: rej missing_fields_set)
qed

theorem missing_field_rejected_witness:
  "''humidity'' \<in> {''sensor_sn'', ''ppb'', ''temperature'', ''humidity''} \<and>
   missing_two ''humidity'' = None \<and>
   post_data MAX_READINGS ''2024-01-30T10:30:46.000Z'' ''2024-01-30T10:30:46.001Z''
     missing_two three_clients = (Status400 [''ppb'', ''humidity''], three_clients)"
proof -
  have h1: "''humidity'' \<in> {''sensor_sn'', ''ppb'', ''temperature'', ''humidity''}"
    by simp
  have h2: "missing_two ''humidity'' = None"
    by (simp add: missing_two_def)
  have m: "missing_fields missing_two = [''ppb'', ''humidity'']"
    by (simp add: missing_fields_def requiredFields_def missing_two_def)
  show ?thesis
    using h1 h2
      missing_field_rejected_state_unchanged [where f = "''humidity''" and body = missing_two
        and cap = MAX_READINGS and tI = "''2024-01-30T10:30:46.000Z''"
        and tB = "''2024-01-30T10:30:46.001Z''" and st = three_clients, OF h1 h2]
    by (simp add: m)
qed




text \<open>
  C1, as the spec states it, fails: a record that has \<^verbatim>\<open>sensor_sn\<close>, \<^verbatim>\<open>ppb\<close>,
  \<^verbatim>\<open>temperature\<close> and \<^verbatim>\<open>humidity\<close> but no \<^verbatim>\<open>timestamp\<close> is rejected, with \<^verbatim>\<open>timestamp\<close>
  listed as missing, and the state is unchanged.
\<close>

theorem absent_timestamp_rejected:
  "no_timestamp ''sensor_sn'' = Some (JStr ''DGS2-001'') \<and>
   no_timestamp ''ppb'' = Some (JNum 45) \<and>
   no_timestamp ''temperature'' = Some (JNum 23) \<and>
   no_timestamp ''humidity'' = Some (JNum 65) \<and>
   no_timestamp ''timestamp'' = None \<and>
   post_data MAX_READINGS ''2024-01-30T10:30:46.000Z'' ''2024-01-30T10:30:46.001Z''
     no_timestamp initial_server = (Status400 [''timestamp''], initial_server)"
  by (simp add: post_data_eq concrete_missing_fields) (simp add: no_timestamp_def)

text \<open>
  C1, amended. The endpoint rejects a record with InvalidReading exactly when one of the
  five fields \<^verbatim>\<open>timestamp\<close>, \<^verbatim>\<open>sensor_sn\<close>, \<^verbatim>\<open>ppb\<close>, \<^verbatim>\<open>temperature\<close>, \<^verbatim>\<open>humidity\<close> is
  absent, the state being left unchanged, and an absent \<^verbatim>\<open>timestamp\<close> is listed as missing.
  A record with all five present is not rejected with InvalidReading and is stored; its
  stored timestamp is the submitted one when that is truthy, and the ingestion-time
  instant when it is present but falsy (\<^verbatim>\<open>null\<close>, the empty string, 0, \<^verbatim>\<open>false\<close>).
\<close>

theorem endpoint_requires_all_five_fields:
  assumes "missing_fields body = []" and "0 < cap"
  shows "invalid_reading (fst (post_data cap tI tB body' st')) =
           (\<exists>f \<in> set requiredFields. body' f = None) \<and>
         (post_data cap tI tB body' st' = (Status400 (missing_fields body'), st')) =
           (\<exists>f \<in> set requiredFields. body' f = None) \<and>
         (''timestamp'' \<in> set (missing_fields body')) = (body' ''timestamp'' = None) \<and>
         \<not> invalid_reading (fst (post_data cap tI tB body st)) \<and>
         getLatestReading (snd (post_data cap tI tB body st)) = Some (add_timestamp tI body) \<and>
         add_timestamp tI body ''timestamp'' =
           (if truthy (body ''timestamp'') then body ''timestamp'' else Some (JStr tI))"
proof -
  have ne: "(missing_fields body' \<noteq> []) = (\<exists>f \<in> set requiredFields. body' f = None)"
    by (simp add: missing_fields_def filter_empty_conv)
  have inv: "invalid_reading (fst (post_data cap tI tB body' st')) =
      (\<exists>f \<in> set requiredFields. body' f = None)"
    unfolding ne [symmetric] by (rule post_data_invalid)
  have rej: "(post_data cap tI tB body' st' = (Status400 (missing_fields body'), st')) =
      (\<exists>f \<in> set requiredFields. body' f = None)"
    unfolding ne [symmetric] by (simp add: post_data_eq split: sum.splits)
  have ts: "(''timestamp'' \<in> set (missing_fields body')) = (body' ''timestamp'' = None)"
    by (simp add: missing_fields_set requiredFields_def)
  have acc: "\<not> invalid_reading (fst (post_data cap tI tB body st))"
    using assms(1) by (simp add: post_data_invalid)
  have lf: "getLatestReading (snd (post_data cap tI tB body st)) = Some (add_timestamp tI body)"
    using assms by (simp add: post_data_latest)
  have at: "add_timestamp tI body ''timestamp'' =
      (if truthy (body ''timestamp'') then body ''timestamp'' else Some (JStr tI))"
    by (simp add: add_timestamp_def)
  show ?thesis
    using inv rej ts acc lf at by blast
qed

theorem endpoint_requires_all_five_fields_witness:
  "missing_fields empty_timestamp = [] \<and> (0::nat) < MAX_READINGS \<and>
   post_data MAX_READINGS ''2024-01-30T10:30:46.000Z'' ''2024-01-30T10:30:46.001Z''
     no_timestamp initial_server = (Status400 [''timestamp''], initial_server) \<and>
   \<not> invalid_reading (fst (post_data MAX_READINGS ''2024-01-30T10:30:46.000Z''
     ''2024-01-30T10:30:46.001Z'' empty_timestamp initial_server)) \<and>
   getLatestReading (snd (post_data MAX_READINGS ''2024-01-30T10:30:46.000Z''
     ''2024-01-30T10:30:46.001Z'' empty_timestamp initial_server)) =
     Some (empty_timestamp(''timestamp'' \<mapsto> JStr ''2024-01-30T10:30:46.000Z''))"
proof -
  let ?tI = "''2024-01-30T10:30:46.000Z''"
  let ?tB = "''2024-01-30T10:30:46.001Z''"
  have h1: "missing_fields empty_timestamp = []"
    by (simp add: concrete_missing_fields)
  have h2: "(0::nat) < MAX_READINGS"
    by (simp add: MAX_READINGS_def)
  have ex: "\<exists>f \<in> set requiredFields. no_timestamp f = None"
    by (simp add: requiredFields_def no_timestamp_def)
  note t = endpoint_requires_all_five_fields [OF h1 h2, of ?tI ?tB no_timestamp initial_server
    initial_server]
  note r = t [THEN conjunct2, THEN conjunct1]
  note a = t [THEN conjunct2, THEN conjunct2, THEN conjunct2, THEN conjunct1]
  note l = t [THEN conjunct2, THEN conjunct2, THEN conjunct2, THEN conjunct2, THEN conjunct1]
  have r': "post_data MAX_READINGS ?tI ?tB no_timestamp initial_server =
      (Status400 [''timestamp''], initial_server)"
    using r ex by (simp add: concrete_missing_fields)
  show ?thesis
    using h1 h2 r' a l by (simp add: concrete_add_timestamp)
qed

text \<open>
  C9, as the spec states it, fails: a record whose \<^verbatim>\<open>ppb\<close> is a string that is no number,
  whose \<^verbatim>\<open>temperature\<close> is \<^verbatim>\<open>null\<close> and whose \<^verbatim>\<open>humidity\<close> is an array is accepted and
  stored as it is.
\<close>

theorem malformed_values_accepted:
  "malformed_reading ''ppb'' = Some (JStr ''not a number'') \<and>
   malformed_reading ''temperature'' = Some JNull \<and>
   malformed_reading ''humidity'' = Some (JArr []) \<and>
   fst (post_data MAX_READINGS ''2024-01-30T10:30:46.000Z'' ''2024-01-30T10:30:46.001Z''
     malformed_reading initial_server) = Status200 1 \<and>
   getAllReadings (snd (post_data MAX_READINGS ''2024-01-30T10:30:46.000Z''
     ''2024-01-30T10:30:46.001Z'' malformed_reading initial_server)) = [malformed_reading]"
proof -
  let ?tI = "''2024-01-30T10:30:46.000Z''"
  let ?tB = "''2024-01-30T10:30:46.001Z''"
  have st: "getAllReadings (snd (post_data MAX_READINGS ?tI ?tB malformed_reading
      initial_server)) = [malformed_reading]"
    by (simp add: getAllReadings_def post_data_dataStore concrete_missing_fields
        concrete_add_timestamp readings_addReading concrete_readings MAX_READINGS_def)
  have ok: "fst (addReading MAX_READINGS malformed_reading initial_server) = None"
    by (simp add: addReading_raises concrete_readings MAX_READINGS_def)
  have n: "length (readings (dataStore (snd (broadcastToClients ?tB malformed_reading
      (appendToCSVLog malformed_reading
         (snd (addReading MAX_READINGS malformed_reading initial_server))))))) = 1"
    by (simp add: broadcastToClients_dataStore appendToCSVLog_frame readings_addReading
        concrete_readings MAX_READINGS_def)
  have rs: "fst (post_data MAX_READINGS ?tI ?tB malformed_reading initial_server) = Status200 1"
    by (simp add: post_data_eq concrete_missing_fields handleSensorData_eq Let_def
        concrete_add_timestamp ok concrete_sensor_line n)
  show ?thesis
    using st rs by (simp add: malformed_reading_def)
qed

text \<open>
  C9, amended. The validator checks only that the five required keys are present: its
  answer depends on the set of keys of the record alone, never on the values. Every record
  that has the five keys passes it, whatever its values are, malformed or out of range,
  and is stored as submitted, apart from a falsy timestamp, which is replaced.
\<close>

theorem validator_checks_presence_only:
  assumes "dom a = dom b" and "set requiredFields \<subseteq> dom body" and "0 < cap"
  shows "missing_fields a = missing_fields b \<and>
         invalid_reading (fst (post_data cap tI tB a st)) =
           invalid_reading (fst (post_data cap' tI' tB' b st')) \<and>
         invalid_reading (fst (post_data cap tI tB a st)) = (\<not> set requiredFields \<subseteq> dom a) \<and>
         \<not> invalid_reading (fst (post_data cap tI tB body st)) \<and>
         getLatestReading (snd (post_data cap tI tB body st)) = Some (add_timestamp tI body) \<and>
         add_timestamp tI body f =
           (if f = ''timestamp'' \<and> \<not> truthy (body ''timestamp'') then Some (JStr tI) else body f)"
proof -
  have same: "missing_fields a = missing_fields b"
    using assms(1) by (simp add: missing_fields_dom)
  have iv: "invalid_reading (fst (post_data cap tI tB a st)) =
      invalid_reading (fst (post_data cap' tI' tB' b st'))"
    by (simp add: post_data_invalid same)
  have ks: "invalid_reading (fst (post_data cap tI tB a st)) = (\<not> set requiredFields \<subseteq> dom a)"
    by (auto simp add: post_data_invalid missing_fields_dom filter_empty_conv)
  have none: "missing_fields body = []"
    using assms(2) by (auto simp add: missing_fields_dom filter_empty_conv)
  have acc: "\<not> invalid_reading (fst (post_data cap tI tB body st))"
    by (simp add: post_data_invalid none)
  have lf: "getLatestReading (snd (post_data cap tI tB body st)) = Some (add_timestamp tI body)"
    using none assms(3) by (simp add: post_data_latest)
  show ?thesis
    using same iv ks acc lf add_timestamp_apply by blast
qed

theorem validator_checks_presence_only_witness:
  "dom missing_two = dom other_values \<and>
   set requiredFields \<subseteq> dom malformed_reading \<and> (0::nat) < 3 \<and>
   missing_fields missing_two = [''ppb'', ''humidity''] \<and>
   missing_fields other_values = [''ppb'', ''humidity''] \<and>
   invalid_reading (fst (post_data 3 ''2024-01-30T10:30:46.000Z'' ''2024-01-30T10:30:46.001Z''
     other_values three_clients)) \<and>
   \<not> invalid_reading (fst (post_data 3 ''2024-01-30T10:30:46.000Z'' ''2024-01-30T10:30:46.001Z''
     malformed_reading three_clients)) \<and>
   getLatestReading (snd (post_data 3 ''2024-01-30T10:30:46.000Z'' ''2024-01-30T10:30:46.001Z''
     malformed_reading three_clients)) = Some malformed_reading \<and>
   add_timestamp ''2024-01-30T10:30:46.000Z'' malformed_reading ''ppb'' =
     Some (JStr ''not a number'')"
proof -
  let ?tI = "''2024-01-30T10:30:46.000Z''"
  let ?tB = "''2024-01-30T10:30:46.001Z''"
  have h1: "dom missing_two = dom other_values"
    by (simp add: missing_two_def other_values_def)
  have h2: "set requiredFields \<subseteq> dom malformed_reading"
    by (simp add: malformed_reading_def requiredFields_def)
  have h3: "(0::nat) < 3"
    by simp
  note t = validator_checks_presence_only [OF h1 h2 h3,
    of ?tI ?tB three_clients 3 ?tI ?tB three_clients "''ppb''"]
  note s = t [THEN conjunct1]
  note i = t [THEN conjunct2, THEN conjunct1]
  note c = t [THEN conjunct2, THEN conjunct2, THEN conjunct2, THEN conjunct1]
  note l = t [THEN conjunct2, THEN conjunct2, THEN conjunct2, THEN conjunct2, THEN conjunct1]
  note e = t [THEN conjunct2, THEN conjunct2, THEN conjunct2, THEN conjunct2, THEN conjunct2]
  have m: "invalid_reading (fst (post_data 3 ?tI ?tB missing_two three_clients))"
    by (simp add: post_data_eq concrete_missing_fields)
  have p: "malformed_reading ''ppb'' = Some (JStr ''not a number'')"
    by (simp add: malformed_reading_def)
  show ?thesis
    using h1 h2 h3 s i m c l e by (simp add: concrete_missing_fields concrete_add_timestamp p)
qed

text \<open>
  The other way to a 500: the store holds, at capacity 2, a reading whose timestamp cannot
  be printed and one more. The next valid reading is stored, the eviction log line raises,
  and neither a CSV line nor a broadcast follows.
\<close>

lemma eviction_failure_skips_broadcast:
  "fst (post_data 2 ''2024-01-30T10:30:46.000Z'' ''2024-01-30T10:30:46.001Z'' (ppb_reading 7)
     (addReadings 2 [poison_timestamp, ppb_reading 6] three_clients)) =
     Status500 cannot_convert \<and>
   getAllReadings (snd (post_data 2 ''2024-01-30T10:30:46.000Z'' ''2024-01-30T10:30:46.001Z''
     (ppb_reading 7) (addReadings 2 [poison_timestamp, ppb_reading 6] three_clients))) =
     [ppb_reading 6, ppb_reading 7] \<and>
   received (sockets (snd (post_data 2 ''2024-01-30T10:30:46.000Z'' ''2024-01-30T10:30:46.001Z''
     (ppb_reading 7) (addReadings 2 [poison_timestamp, ppb_reading 6] three_clients))) 3) = [] \<and>
   csvLog (snd (post_data 2 ''2024-01-30T10:30:46.000Z'' ''2024-01-30T10:30:46.001Z''
     (ppb_reading 7) (addReadings 2 [poison_timestamp, ppb_reading 6] three_clients))) = []"
proof -
  let ?tI = "''2024-01-30T10:30:46.000Z''"
  let ?tB = "''2024-01-30T10:30:46.001Z''"
  let ?s = "addReadings 2 [poison_timestamp, ppb_reading 6] three_clients"
  have r: "readings (dataStore ?s) = [poison_timestamp, ppb_reading 6]"
    by (simp add: readings_addReading concrete_readings)
  have c0: "csvLog three_clients = []"
    by (simp add: three_clients_def initial_server_def)
  have fr0: "sockets ?s = sockets three_clients" "csvLog ?s = []"
    by (simp_all add: addReading_frame c0)
  have bad: "fst (addReading 2 (ppb_reading 7) ?s) = Some cannot_convert"
    by (simp only: addReading_raises r) (simp add: poison_timestamp_def cannot_convert_def)
  have h: "handleSensorData 2 ?tI ?tB (ppb_reading 7) ?s =
      (Inl cannot_convert,
       console_log (LogHandleError cannot_convert) (snd (addReading 2 (ppb_reading 7) ?s)))"
    by (simp only: handleSensorData_eq Let_def concrete_add_timestamp bad option.case)
  have st: "getAllReadings (snd (post_data 2 ?tI ?tB (ppb_reading 7) ?s)) =
      [ppb_reading 6, ppb_reading 7]"
    by (simp only: getAllReadings_def post_data_dataStore concrete_missing_fields
        concrete_add_timestamp readings_addReading r) simp
  have pd: "post_data 2 ?tI ?tB (ppb_reading 7) ?s =
      (Status500 cannot_convert,
       console_log (LogRouteError cannot_convert)
         (console_log (LogHandleError cannot_convert) (snd (addReading 2 (ppb_reading 7) ?s))))"
    by (simp only: post_data_eq concrete_missing_fields h) simp
  have fr: "received (sockets (snd (post_data 2 ?tI ?tB (ppb_reading 7) ?s)) 3) = []"
    "csvLog (snd (post_data 2 ?tI ?tB (ppb_reading 7) ?s)) = []"
    by (simp_all only: pd snd_conv) (simp_all add: console_log_def addReading_frame fr0 c0
        three_clients_simps)
  have rs: "fst (post_data 2 ?tI ?tB (ppb_reading 7) ?s) = Status500 cannot_convert"
    by (simp only: pd fst_conv)
  show ?thesis
    by (intro conjI) (rule rs, rule st, rule fr(1), rule fr(2))
qed

section \<open>Properties of the handlers of a socket\<close>

lemma send_props:
  "connectedClients (snd (send m c st)) = connectedClients st"
  "dataStore (snd (send m c st)) = dataStore st"
  "wsServer (snd (send m c st)) = wsServer st"
  "readyState (sockets (snd (send m c st)) c') = readyState (sockets st c')"
  "sendThrows (sockets (snd (send m c st)) c') = sendThrows (sockets st c')"
  "handlersRegistered (sockets (snd (send m c st)) c') = handlersRegistered (sockets st c')"
  "c' \<noteq> c \<Longrightarrow> sockets (snd (send m c st)) c' = sockets st c'"
  by (simp_all add: send_def split: option.splits)











text \<open>
  When the welcome \<^verbatim>\<open>send\<close> raises, the socket has been added to \<^verbatim>\<open>connectedClients\<close> and
  has no handlers: its close event removes nothing.
\<close>

lemma welcome_failure_keeps_socket:
  "fst (on_connection 4 ''2024-01-30T10:30:50.000Z'' newcomer_fails) =
     Some (JsError ''write EPIPE'') \<and>
   connectedClients (run 3 [Connection 4 ''2024-01-30T10:30:50.000Z'', Close 4] newcomer_fails) =
     [1, 2, 3, 4]"
  by (simp add: on_connection_def Let_def send_def console_log_def Set_add_def newcomer_fails_def
      three_clients_simps)

section \<open>The claim about the life of a subscriber\<close>




end
